theory Spec2Isabelle
  imports Main
begin

section \<open>Python values of a JSON-decoded event\<close>

text \<open>
  The handler receives the JSON-decoded invocation payload. A JSON object is a Python
  dict with string keys, kept here as an association list that is read with
  \<^const>\<open>map_of\<close> (a dict holds each key once). Strings are lists of code points
  below 256. JSON numbers are the Python integers; floating-point numbers are left out
  of the value type.
\<close>

datatype pyval =
    PNone
  | PBool bool
  | PInt int
  | PStr string
  | PList "pyval list"
  | PDict "(string \<times> pyval) list"

type_synonym pydict = "(string \<times> pyval) list"

text \<open>Python's truth value of an object, as \<^verbatim>\<open>not x\<close> tests it.\<close>

fun truthy :: "pyval \<Rightarrow> bool" where
  "truthy PNone = False"
| "truthy (PBool b) = b"
| "truthy (PInt i) = (i \<noteq> 0)"
| "truthy (PStr s) = (s \<noteq> [])"
| "truthy (PList xs) = (xs \<noteq> [])"
| "truthy (PDict kvs) = (kvs \<noteq> [])"

text \<open>\<^verbatim>\<open>d.get(k)\<close>: the value stored under the key, Python's None when there is none.\<close>

definition dict_get :: "pydict \<Rightarrow> string \<Rightarrow> pyval" where
  "dict_get d k = (case map_of d k of None \<Rightarrow> PNone | Some v \<Rightarrow> v)"

text \<open>
  The exceptions that can leave the handler. \<open>KeyError k\<close> carries the missing key;
  \<open>ValueError\<close>, \<open>ParamValidationError\<close> and \<open>ClientError code\<close> are the ones raised
  by the storage client.
\<close>

datatype exn =
    KeyError string
  | TypeError
  | ValueError
  | ParamValidationError
  | ClientError string

text \<open>
  \<^verbatim>\<open>x[k]\<close> with a string key \<open>k\<close>: a dict yields the value or raises KeyError, every
  other object raises TypeError (a list or a string wants an integer index, the rest are
  not subscriptable).
\<close>

fun subscript :: "pyval \<Rightarrow> string \<Rightarrow> exn + pyval" where
  "subscript (PDict d) k = (case map_of d k of None \<Rightarrow> Inl (KeyError k) | Some v \<Rightarrow> Inr v)"
| "subscript _ k = Inl TypeError"

subsection \<open>Formatting values into messages\<close>

definition dec_digit :: "nat \<Rightarrow> char" where
  "dec_digit n = ''0123456789'' ! (n mod 10)"

definition hex_digit :: "nat \<Rightarrow> char" where
  "hex_digit n = ''0123456789abcdef'' ! (n mod 16)"

fun str_nat :: "nat \<Rightarrow> string" where
  "str_nat n = (if n < 10 then [dec_digit n] else str_nat (n div 10) @ [dec_digit n])"

definition str_int :: "int \<Rightarrow> string" where
  "str_int i = (if i < 0 then CHR ''-'' # str_nat (nat (- i)) else str_nat (nat i))"

text \<open>
  \<^verbatim>\<open>repr\<close> of a string: single quotes, unless the string holds a single quote and no
  double quote; the quote in use and the backslash are escaped, tab, newline and carriage
  return have their letters, and the other non-printable code points (below 0x20,
  0x7f to 0xa0, 0xad) are written \<^verbatim>\<open>\xhh\<close>.
\<close>

definition repr_quote :: "string \<Rightarrow> char" where
  "repr_quote s = (if CHR 0x27 \<in> set s \<and> CHR 0x22 \<notin> set s then CHR 0x22 else CHR 0x27)"

definition repr_char :: "char \<Rightarrow> char \<Rightarrow> string" where
  "repr_char q c =
     (let n = (of_char c :: nat) in
      if c = q \<or> c = CHR 0x5C then [CHR 0x5C, c]
      else if c = CHR 0x09 then [CHR 0x5C, CHR ''t'']
      else if c = CHR 0x0A then [CHR 0x5C, CHR ''n'']
      else if c = CHR 0x0D then [CHR 0x5C, CHR ''r'']
      else if n < 32 \<or> (127 \<le> n \<and> n \<le> 160) \<or> n = 173
        then [CHR 0x5C, CHR ''x'', hex_digit (n div 16), hex_digit n]
      else [c])"

definition repr_str :: "string \<Rightarrow> string" where
  "repr_str s = (let q = repr_quote s in q # concat (map (repr_char q) s) @ [q])"

fun join_comma :: "string list \<Rightarrow> string" where
  "join_comma [] = []"
| "join_comma [x] = x"
| "join_comma (x # xs) = x @ '', '' @ join_comma xs"

fun py_repr :: "pyval \<Rightarrow> string" where
  "py_repr PNone = ''None''"
| "py_repr (PBool b) = (if b then ''True'' else ''False'')"
| "py_repr (PInt i) = str_int i"
| "py_repr (PStr s) = repr_str s"
| "py_repr (PList xs) = ''['' @ join_comma (map py_repr xs) @ '']''"
| "py_repr (PDict kvs) =
     ''{'' @ join_comma (map (\<lambda>kv. repr_str (fst kv) @ '': '' @ py_repr (snd kv)) kvs) @ ''}''"

text \<open>
  \<^verbatim>\<open>str(x)\<close>, which is what an f-string field \<^verbatim>\<open>{x}\<close> inserts: a string as it is, any
  other value by its \<^verbatim>\<open>repr\<close>.
\<close>

definition py_str :: "pyval \<Rightarrow> string" where
  "py_str v = (case v of PStr s \<Rightarrow> s | _ \<Rightarrow> py_repr v)"

text \<open>\<^verbatim>\<open>str(err)\<close> of a KeyError is the \<^verbatim>\<open>repr\<close> of the missing key.\<close>

definition str_KeyError :: "string \<Rightarrow> string" where
  "str_KeyError k = repr_str k"

section \<open>The storage client\<close>

text \<open>
  The module-level \<^verbatim>\<open>s3 = boto3.resource('s3')\<close> is a capability the handler is given:
  the resource constructor \<^verbatim>\<open>s3.Bucket(name)\<close> and the two collection actions
  \<^verbatim>\<open>bucket.objects.delete()\<close> and \<^verbatim>\<open>bucket.object_versions.delete()\<close>. An action
  runs on the state \<open>'s\<close> of the storage service and returns the new state together with
  its response \<open>'r\<close> or the exception it raised; what it did before raising stays done.
\<close>

record ('b, 'r, 's) s3_resource =
  Bucket :: "pyval \<Rightarrow> exn + 'b"
  objects_delete :: "'b \<Rightarrow> 's \<Rightarrow> (exn + 'r) \<times> 's"
  object_versions_delete :: "'b \<Rightarrow> 's \<Rightarrow> (exn + 'r) \<times> 's"

section \<open>The bulk-delete operation\<close>

text \<open>
  \<^verbatim>\<open>empty_bucket(bucket_name)\<close>: deletes the current objects, then the object versions,
  and returns the response of the first action. Nothing is caught.
\<close>

definition empty_bucket :: "('b, 'r, 's) s3_resource \<Rightarrow> pyval \<Rightarrow> 's \<Rightarrow> (exn + 'r) \<times> 's" where
  "empty_bucket api bucket_name st =
     (case Bucket api bucket_name of
        Inl e \<Rightarrow> (Inl e, st)
      | Inr bucket \<Rightarrow>
          (case objects_delete api bucket st of
             (Inl e, st1) \<Rightarrow> (Inl e, st1)
           | (Inr delete_response, st1) \<Rightarrow>
               (case object_versions_delete api bucket st1 of
                  (Inl e, st2) \<Rightarrow> (Inl e, st2)
                | (Inr _, st2) \<Rightarrow> (Inr delete_response, st2))))"

section \<open>The hook handler\<close>

definition hooks_only_msg :: string where
  "hooks_only_msg = ''This Lambda function can only be invoked by CloudFormation Hooks''"

definition wrong_phase_msg :: "pyval \<Rightarrow> string" where
  "wrong_phase_msg received =
     ''This Lambda function is only authorized for DELETE_PRE_PROVISION operations, received: ''
       @ py_str received"

text \<open>
  The body of the \<^verbatim>\<open>try\<close>:
  \<^verbatim>\<open>event["requestData"]["targetModel"]["resourceProperties"]["BucketName"]\<close>,
  read from the left; the first subscript that raises ends it.
\<close>

definition bucket_name_of :: "pydict \<Rightarrow> exn + pyval" where
  "bucket_name_of event =
     (case subscript (PDict event) ''requestData'' of
        Inl e \<Rightarrow> Inl e
      | Inr request_data \<Rightarrow>
          (case subscript request_data ''targetModel'' of
             Inl e \<Rightarrow> Inl e
           | Inr target_model \<Rightarrow>
               (case subscript target_model ''resourceProperties'' of
                  Inl e \<Rightarrow> Inl e
                | Inr resource_properties \<Rightarrow> subscript resource_properties ''BucketName'')))"

text \<open>
  \<^verbatim>\<open>lambda_handler(event, context)\<close>. The event is the JSON object of the
  invocation, a dict. The result is the verdict (a dict) or the exception
  that left the handler, with the state of the storage service afterwards. The calls to
  \<^verbatim>\<open>print\<close> and \<^verbatim>\<open>logging\<close> write to the log only and are not part of the model; the
  \<^verbatim>\<open>context\<close> argument is never read.
\<close>

definition lambda_handler ::
    "('b, 'r, 's) s3_resource \<Rightarrow> pydict \<Rightarrow> 's \<Rightarrow> (exn + pydict) \<times> 's" where
  "lambda_handler api event st =
     (if \<not> truthy (dict_get event ''hookTypeName'')
         \<or> \<not> truthy (dict_get event ''actionInvocationPoint'')
         \<or> \<not> truthy (dict_get event ''clientRequestToken'')
      then (Inr [(''hookStatus'', PStr ''FAILURE''), (''errorCode'', PStr ''Unauthorized''),
                 (''message'', PStr hooks_only_msg)], st)
      else if dict_get event ''actionInvocationPoint'' \<noteq> PStr ''DELETE_PRE_PROVISION''
      then (case subscript (PDict event) ''clientRequestToken'' of
              Inl e \<Rightarrow> (Inl e, st)
            | Inr token \<Rightarrow>
                (Inr [(''hookStatus'', PStr ''FAILURE''), (''errorCode'', PStr ''Unauthorized''),
                      (''message'', PStr (wrong_phase_msg (dict_get event ''actionInvocationPoint''))),
                      (''clientRequestToken'', token)], st))
      else (case bucket_name_of event of
              Inl (KeyError k) \<Rightarrow>
                (case subscript (PDict event) ''clientRequestToken'' of
                   Inl e \<Rightarrow> (Inl e, st)
                 | Inr token \<Rightarrow>
                     (Inr [(''hookStatus'', PStr ''FAILURE''), (''errorCode'', PStr ''NonCompliant''),
                           (''message'', PStr (str_KeyError k)),
                           (''clientRequestToken'', token)], st))
            | Inl e \<Rightarrow> (Inl e, st)
            | Inr bucket_name \<Rightarrow>
                (case empty_bucket api bucket_name st of
                   (Inl e, st') \<Rightarrow> (Inl e, st')
                 | (Inr response, st') \<Rightarrow>
                     (case subscript (PDict event) ''clientRequestToken'' of
                        Inl e \<Rightarrow> (Inl e, st')
                      | Inr token \<Rightarrow>
                          (Inr [(''hookStatus'', PStr ''SUCCESS''), (''message'', PStr ''compliant''),
                                (''clientRequestToken'', token)], st')))))"

subsection \<open>The conditions the handler's contract speaks of\<close>

text \<open>The event passes the authorization check: the three fields are there and are truthy.\<close>

definition authorized :: "pydict \<Rightarrow> bool" where
  "authorized event \<longleftrightarrow>
     truthy (dict_get event ''hookTypeName'')
     \<and> truthy (dict_get event ''actionInvocationPoint'')
     \<and> truthy (dict_get event ''clientRequestToken'')"

text \<open>A field is missing or empty: the key is absent, or it holds the empty string.\<close>

definition missing_or_empty :: "pydict \<Rightarrow> string \<Rightarrow> bool" where
  "missing_or_empty event k \<longleftrightarrow> map_of event k = None \<or> map_of event k = Some (PStr [])"

text \<open>
  The first key along \<^verbatim>\<open>requestData.targetModel.resourceProperties.BucketName\<close> that is
  absent from the dict in which it is looked up, every key before it holding a dict;
  \<open>None\<close> when there is no such key.
\<close>

definition absent_key :: "pydict \<Rightarrow> string option" where
  "absent_key event =
     (case map_of event ''requestData'' of
        None \<Rightarrow> Some ''requestData''
      | Some (PDict request_data) \<Rightarrow>
          (case map_of request_data ''targetModel'' of
             None \<Rightarrow> Some ''targetModel''
           | Some (PDict target_model) \<Rightarrow>
               (case map_of target_model ''resourceProperties'' of
                  None \<Rightarrow> Some ''resourceProperties''
                | Some (PDict resource_properties) \<Rightarrow>
                    (case map_of resource_properties ''BucketName'' of
                       None \<Rightarrow> Some ''BucketName''
                     | Some _ \<Rightarrow> None)
                | Some _ \<Rightarrow> None)
           | Some _ \<Rightarrow> None)
      | Some _ \<Rightarrow> None)"

text \<open>
  Some key before \<open>BucketName\<close> on that path is present but holds a value that is not
  a dict, every key before it holding a dict.
\<close>

definition non_mapping_segment :: "pydict \<Rightarrow> bool" where
  "non_mapping_segment event =
     (case map_of event ''requestData'' of
        None \<Rightarrow> False
      | Some (PDict request_data) \<Rightarrow>
          (case map_of request_data ''targetModel'' of
             None \<Rightarrow> False
           | Some (PDict target_model) \<Rightarrow>
               (case map_of target_model ''resourceProperties'' of
                  None \<Rightarrow> False
                | Some (PDict resource_properties) \<Rightarrow> False
                | Some _ \<Rightarrow> True)
           | Some _ \<Rightarrow> True)
      | Some _ \<Rightarrow> True)"

section \<open>A model of the storage service\<close>

text \<open>
  Modelled from the spec: the storage service and the client library's collection
  actions are not part of the repository's source. The model follows the bulk-delete
  contract of the spec (current objects, historical versions and delete markers, for
  buckets with versioning never enabled, enabled or suspended; paginated enumeration,
  one batch delete per page) and leaves out access control, object locks and transport
  failures: the only failures are an unusable bucket name and a bucket that does not exist.
\<close>

datatype versioning = Unversioned | Enabled | Suspended

datatype version_id = Null | Vid nat

record object_version =
  key :: string
  vid :: version_id
  delete_marker :: bool

text \<open>
  Modelled from the spec: a bucket of the storage service. It holds its object versions
  and delete markers, the newest first: the latest entry of a key is its first entry in
  the list. \<open>next_vid\<close> numbers the next version.
\<close>

record bucket =
  versioning :: versioning
  versions :: "object_version list"
  next_vid :: nat

type_synonym store = "string \<Rightarrow> bucket option"

text \<open>The latest entry of every key not in \<open>seen\<close>.\<close>

primrec latest_from :: "string list \<Rightarrow> object_version list \<Rightarrow> object_version list" where
  "latest_from seen [] = []"
| "latest_from seen (e # es) =
     (if key e \<in> set seen then latest_from seen es else e # latest_from (key e # seen) es)"

text \<open>
  Modelled from the spec: the service's object listing. It enumerates the current
  objects: the keys whose latest entry is not a delete marker.
\<close>

definition list_objects :: "bucket \<Rightarrow> string list" where
  "list_objects b = map key (filter (\<lambda>e. \<not> delete_marker e) (latest_from [] (versions b)))"

text \<open>
  Modelled from the spec: the service's version listing. It enumerates every version
  and delete marker.
\<close>

definition list_object_versions :: "bucket \<Rightarrow> (string \<times> version_id) list" where
  "list_object_versions b = map (\<lambda>e. (key e, vid e)) (versions b)"

text \<open>
  Modelled from the spec: the service's delete of one entry of a batch. Without a
  version id: an unversioned bucket loses the object, a bucket with versioning enabled
  gains a delete marker with a new version id, a bucket with versioning suspended has
  the key's null version replaced by a null delete marker. With a version id: that
  version or delete marker is removed for good. In each case a key or version that is
  not there is no error.
\<close>

fun delete_object :: "string \<times> version_id option \<Rightarrow> bucket \<Rightarrow> bucket" where
  "delete_object (k, None) b =
     (case versioning b of
        Unversioned \<Rightarrow>
          b\<lparr>versions := filter (\<lambda>e. \<not> (key e = k \<and> vid e = Null)) (versions b)\<rparr>
      | Enabled \<Rightarrow>
          b\<lparr>versions := \<lparr>key = k, vid = Vid (next_vid b), delete_marker = True\<rparr> # versions b,
            next_vid := Suc (next_vid b)\<rparr>
      | Suspended \<Rightarrow>
          b\<lparr>versions := \<lparr>key = k, vid = Null, delete_marker = True\<rparr>
                         # filter (\<lambda>e. \<not> (key e = k \<and> vid e = Null)) (versions b)\<rparr>)"
| "delete_object (k, Some v) b =
     b\<lparr>versions := filter (\<lambda>e. \<not> (key e = k \<and> vid e = v)) (versions b)\<rparr>"

type_synonym batch = "(string \<times> version_id option) list"

definition delete_objects :: "batch \<Rightarrow> bucket \<Rightarrow> bucket" where
  "delete_objects objs b = fold delete_object objs b"

text \<open>
  Modelled from the spec: the pages of the client library's enumeration, at most
  \<open>page_size\<close> entries each, none empty.
\<close>

definition page_size :: nat where
  "page_size = 1000"

primrec pages_acc :: "'a list \<Rightarrow> 'a list \<Rightarrow> 'a list list" where
  "pages_acc acc [] = (if acc = [] then [] else [rev acc])"
| "pages_acc acc (x # xs) =
     (if Suc (length acc) = page_size then rev (x # acc) # pages_acc [] xs
      else pages_acc (x # acc) xs)"

definition pages :: "'a list \<Rightarrow> 'a list list" where
  "pages xs = pages_acc [] xs"

text \<open>
  Modelled from the spec: the service's batch-delete request against a bucket of the
  store. It fails when the bucket does not exist; otherwise every entry of the batch is
  reported deleted, whether it was there or not.
\<close>

definition delete_objects_request :: "string \<Rightarrow> batch \<Rightarrow> store \<Rightarrow> (exn + batch) \<times> store" where
  "delete_objects_request name objs st =
     (case st name of
        None \<Rightarrow> (Inl (ClientError ''NoSuchBucket''), st)
      | Some b \<Rightarrow> (Inr objs, st(name \<mapsto> delete_objects objs b)))"

text \<open>
  Modelled from the spec: the client library's loop over the pages. One request per
  page, in order; the first request that raises ends the action.
\<close>

fun delete_pages :: "string \<Rightarrow> batch list \<Rightarrow> store \<Rightarrow> (exn + batch list) \<times> store" where
  "delete_pages name [] st = (Inr [], st)"
| "delete_pages name (p # ps) st =
     (case delete_objects_request name p st of
        (Inl e, st1) \<Rightarrow> (Inl e, st1)
      | (Inr r, st1) \<Rightarrow>
          (case delete_pages name ps st1 of
             (Inl e, st2) \<Rightarrow> (Inl e, st2)
           | (Inr rs, st2) \<Rightarrow> (Inr (r # rs), st2)))"

text \<open>
  Modelled from the spec: the client library's \<^verbatim>\<open>delete()\<close> of a collection.
  It enumerates the collection page by page and sends one batch delete for each page.
  The response is the list of the requests' responses (the empty list when the
  collection is empty). The bucket must exist, and its name must be a string.
\<close>

definition collection_delete ::
    "(bucket \<Rightarrow> batch) \<Rightarrow> pyval \<Rightarrow> store \<Rightarrow> (exn + batch list) \<times> store" where
  "collection_delete listing bucket st =
     (case bucket of
        PStr name \<Rightarrow>
          (case st name of
             None \<Rightarrow> (Inl (ClientError ''NoSuchBucket''), st)
           | Some b \<Rightarrow> delete_pages name (pages (listing b)) st)
      | _ \<Rightarrow> (Inl ParamValidationError, st))"

text \<open>
  Modelled from the spec: the client library's resource \<^verbatim>\<open>s3\<close>.
  \<^verbatim>\<open>s3.Bucket(name)\<close> refuses None as a name and makes no request;
  \<^verbatim>\<open>objects.delete()\<close> deletes the listed keys without a version id,
  \<^verbatim>\<open>object_versions.delete()\<close> deletes every listed version by its id.
\<close>

definition s3 :: "(pyval, batch list, store) s3_resource" where
  "s3 = \<lparr>Bucket = (\<lambda>name. if name = PNone then Inl ValueError else Inr name),
         objects_delete = collection_delete (\<lambda>b. map (\<lambda>k. (k, None)) (list_objects b)),
         object_versions_delete =
           collection_delete (\<lambda>b. map (\<lambda>(k, v). (k, Some v)) (list_object_versions b))\<rparr>"

text \<open>What a bucket of the store holds: its current objects and all its versions.\<close>

definition current_objects :: "store \<Rightarrow> string \<Rightarrow> string list" where
  "current_objects st name = (case st name of None \<Rightarrow> [] | Some b \<Rightarrow> list_objects b)"

definition object_versions :: "store \<Rightarrow> string \<Rightarrow> (string \<times> version_id) list" where
  "object_versions st name = (case st name of None \<Rightarrow> [] | Some b \<Rightarrow> list_object_versions b)"

section \<open>Properties of the handler\<close>

subsection \<open>Auxiliary facts\<close>

lemma truthy_present: "truthy (dict_get d k) \<Longrightarrow> \<exists>v. map_of d k = Some v \<and> dict_get d k = v"
  by (auto simp: dict_get_def split: option.splits)

lemma token_of_authorized:
  "authorized event \<Longrightarrow>
   subscript (PDict event) ''clientRequestToken'' = Inr (dict_get event ''clientRequestToken'')"
  by (auto simp: authorized_def dict_get_def split: option.splits)

lemma handler_unauthorized:
  "\<not> authorized event \<Longrightarrow>
   lambda_handler api event st =
     (Inr [(''hookStatus'', PStr ''FAILURE''), (''errorCode'', PStr ''Unauthorized''),
           (''message'', PStr hooks_only_msg)], st)"
  by (simp add: lambda_handler_def authorized_def)

lemma handler_wrong_phase:
  "authorized event \<Longrightarrow>
   dict_get event ''actionInvocationPoint'' \<noteq> PStr ''DELETE_PRE_PROVISION'' \<Longrightarrow>
   lambda_handler api event st =
     (Inr [(''hookStatus'', PStr ''FAILURE''), (''errorCode'', PStr ''Unauthorized''),
           (''message'', PStr (wrong_phase_msg (dict_get event ''actionInvocationPoint''))),
           (''clientRequestToken'', dict_get event ''clientRequestToken'')], st)"
  using token_of_authorized[of event]
  by (simp add: lambda_handler_def authorized_def)

lemma handler_extraction:
  "authorized event \<Longrightarrow>
   dict_get event ''actionInvocationPoint'' = PStr ''DELETE_PRE_PROVISION'' \<Longrightarrow>
   lambda_handler api event st =
     (case bucket_name_of event of
        Inl (KeyError k) \<Rightarrow>
          (Inr [(''hookStatus'', PStr ''FAILURE''), (''errorCode'', PStr ''NonCompliant''),
                (''message'', PStr (str_KeyError k)),
                (''clientRequestToken'', dict_get event ''clientRequestToken'')], st)
      | Inl e \<Rightarrow> (Inl e, st)
      | Inr bucket_name \<Rightarrow>
          (case empty_bucket api bucket_name st of
             (Inl e, st') \<Rightarrow> (Inl e, st')
           | (Inr response, st') \<Rightarrow>
               (Inr [(''hookStatus'', PStr ''SUCCESS''), (''message'', PStr ''compliant''),
                     (''clientRequestToken'', dict_get event ''clientRequestToken'')], st')))"
  using token_of_authorized[of event]
  by (simp add: lambda_handler_def authorized_def split: sum.splits exn.splits prod.splits)

lemma absent_key_KeyError:
  "absent_key event = Some k \<longleftrightarrow> bucket_name_of event = Inl (KeyError k)"
  by (auto simp: absent_key_def bucket_name_of_def split: option.splits pyval.splits sum.splits)

lemma non_mapping_TypeError:
  "non_mapping_segment event \<longleftrightarrow> bucket_name_of event = Inl TypeError"
  by (auto simp: non_mapping_segment_def bucket_name_of_def
      split: option.splits pyval.splits sum.splits)

lemma bucket_name_present:
  "(\<exists>v. bucket_name_of event = Inr v) \<longleftrightarrow>
   absent_key event = None \<and> \<not> non_mapping_segment event"
  by (auto simp: absent_key_def non_mapping_segment_def bucket_name_of_def
      split: option.splits pyval.splits sum.splits)

subsection \<open>Authorization check\<close>

text \<open>
  Claim C2. When any of \<open>hookTypeName\<close>, \<open>actionInvocationPoint\<close> or
  \<open>clientRequestToken\<close> is missing from the event or is the empty string, the handler
  returns the verdict with \<open>hookStatus = FAILURE\<close>, \<open>errorCode = Unauthorized\<close> and the
  message that it can only be invoked by CloudFormation Hooks; the verdict has no
  \<open>clientRequestToken\<close> field. This holds for every storage client and leaves the
  storage state as it was.
\<close>

theorem unauthorized_verdict:
  assumes "missing_or_empty event ''hookTypeName''
           \<or> missing_or_empty event ''actionInvocationPoint''
           \<or> missing_or_empty event ''clientRequestToken''"
  shows "\<exists>verdict.
           lambda_handler api event st = (Inr verdict, st)
           \<and> verdict = [(''hookStatus'', PStr ''FAILURE''), (''errorCode'', PStr ''Unauthorized''),
                        (''message'', PStr hooks_only_msg)]
           \<and> map_of verdict ''clientRequestToken'' = None"
proof -
  from assms have "\<not> authorized event"
    by (auto simp: missing_or_empty_def authorized_def dict_get_def)
  then show ?thesis
    by (simp add: handler_unauthorized)
qed

theorem unauthorized_verdict_witness:
  "missing_or_empty
     [(''hookTypeName'', PStr ''Hook''), (''actionInvocationPoint'', PStr ''DELETE_PRE_PROVISION''),
      (''clientRequestToken'', PStr [])] ''clientRequestToken''
   \<and> lambda_handler s3
       [(''hookTypeName'', PStr ''Hook''), (''actionInvocationPoint'', PStr ''DELETE_PRE_PROVISION''),
        (''clientRequestToken'', PStr [])] Map.empty
     = (Inr [(''hookStatus'', PStr ''FAILURE''), (''errorCode'', PStr ''Unauthorized''),
             (''message'', PStr ''This Lambda function can only be invoked by CloudFormation Hooks'')],
        Map.empty)"
proof -
  let ?ev = "[(''hookTypeName'', PStr ''Hook''),
              (''actionInvocationPoint'', PStr ''DELETE_PRE_PROVISION''),
              (''clientRequestToken'', PStr [])]"
  have h: "missing_or_empty ?ev ''clientRequestToken''"
    by (simp add: missing_or_empty_def)
  then have "missing_or_empty ?ev ''hookTypeName''
             \<or> missing_or_empty ?ev ''actionInvocationPoint''
             \<or> missing_or_empty ?ev ''clientRequestToken''"
    by simp
  from unauthorized_verdict [OF this, of s3 Map.empty] h show ?thesis
    by (simp add: hooks_only_msg_def)
qed

subsection \<open>Phase check\<close>



subsection \<open>Extraction of the bucket name\<close>

text \<open>
  Claim C4. When the event passes the authorization and phase checks and a key along
  \<open>requestData.targetModel.resourceProperties.BucketName\<close> is absent from its dict,
  the handler returns the verdict with \<open>hookStatus = FAILURE\<close>,
  \<open>errorCode = NonCompliant\<close>, the absent key in single quotes as the message, and the
  event's \<open>clientRequestToken\<close>.
\<close>

theorem missing_key_verdict:
  assumes "authorized event"
    and "dict_get event ''actionInvocationPoint'' = PStr ''DELETE_PRE_PROVISION''"
    and "absent_key event = Some k"
  shows "\<exists>token.
           map_of event ''clientRequestToken'' = Some token
           \<and> lambda_handler api event st =
               (Inr [(''hookStatus'', PStr ''FAILURE''), (''errorCode'', PStr ''NonCompliant''),
                     (''message'', PStr (str_KeyError k)),
                     (''clientRequestToken'', token)], st)
           \<and> str_KeyError k = [CHR 0x27] @ k @ [CHR 0x27]
           \<and> k \<in> {''requestData'', ''targetModel'', ''resourceProperties'', ''BucketName''}"
proof -
  from assms(1) obtain token where t: "map_of event ''clientRequestToken'' = Some token"
      "dict_get event ''clientRequestToken'' = token"
    using truthy_present unfolding authorized_def by blast
  from assms(3) have e: "bucket_name_of event = Inl (KeyError k)"
    by (simp add: absent_key_KeyError)
  from assms(3) have k: "k \<in> {''requestData'', ''targetModel'', ''resourceProperties'', ''BucketName''}"
    by (auto simp: absent_key_def split: option.splits pyval.splits)
  then have "str_KeyError k = [CHR 0x27] @ k @ [CHR 0x27]"
    by (auto simp: str_KeyError_def repr_str_def repr_quote_def repr_char_def Let_def)
  with handler_extraction [OF assms(1,2), of api st] e t k show ?thesis
    by simp
qed

theorem missing_key_verdict_witness:
  "absent_key
     [(''hookTypeName'', PStr ''Hook''), (''actionInvocationPoint'', PStr ''DELETE_PRE_PROVISION''),
      (''clientRequestToken'', PStr ''tok-1''),
      (''requestData'', PDict [(''targetModel'', PDict [(''resourceProperties'', PDict [])])])]
     = Some ''BucketName''
   \<and> lambda_handler s3
       [(''hookTypeName'', PStr ''Hook''), (''actionInvocationPoint'', PStr ''DELETE_PRE_PROVISION''),
        (''clientRequestToken'', PStr ''tok-1''),
        (''requestData'', PDict [(''targetModel'', PDict [(''resourceProperties'', PDict [])])])]
       Map.empty
     = (Inr [(''hookStatus'', PStr ''FAILURE''), (''errorCode'', PStr ''NonCompliant''),
             (''message'', PStr ([CHR 0x27] @ ''BucketName'' @ [CHR 0x27])),
             (''clientRequestToken'', PStr ''tok-1'')], Map.empty)"
proof -
  let ?ev = "[(''hookTypeName'', PStr ''Hook''),
              (''actionInvocationPoint'', PStr ''DELETE_PRE_PROVISION''),
              (''clientRequestToken'', PStr ''tok-1''),
              (''requestData'',
               PDict [(''targetModel'', PDict [(''resourceProperties'', PDict [])])])]"
  have a: "authorized ?ev"
    by (simp add: authorized_def dict_get_def)
  have p: "dict_get ?ev ''actionInvocationPoint'' = PStr ''DELETE_PRE_PROVISION''"
    by (simp add: dict_get_def)
  have m: "absent_key ?ev = Some ''BucketName''"
    by (simp add: absent_key_def)
  from missing_key_verdict [OF a p m, of s3 Map.empty] m show ?thesis
    by simp
qed

text \<open>
  Claim C10. There are events that pass the authorization and phase checks and yet get
  no verdict: when a key before \<open>BucketName\<close> on the path is present but does not hold a
  dict, the subscript raises TypeError, which the \<open>KeyError\<close> handler does not catch, and
  the exception leaves the handler.
\<close>

theorem non_mapping_fault:
  assumes "authorized event"
    and "dict_get event ''actionInvocationPoint'' = PStr ''DELETE_PRE_PROVISION''"
    and "non_mapping_segment event"
  shows "lambda_handler api event st = (Inl TypeError, st)"
proof -
  from assms(3) have "bucket_name_of event = Inl TypeError"
    by (simp add: non_mapping_TypeError)
  with handler_extraction [OF assms(1,2), of api st] show ?thesis
    by simp
qed

theorem non_mapping_fault_witness:
  "authorized
     [(''hookTypeName'', PStr ''Hook''), (''actionInvocationPoint'', PStr ''DELETE_PRE_PROVISION''),
      (''clientRequestToken'', PStr ''tok-1''), (''requestData'', PStr ''my-bucket'')]
   \<and> non_mapping_segment
       [(''hookTypeName'', PStr ''Hook''), (''actionInvocationPoint'', PStr ''DELETE_PRE_PROVISION''),
        (''clientRequestToken'', PStr ''tok-1''), (''requestData'', PStr ''my-bucket'')]
   \<and> lambda_handler s3
       [(''hookTypeName'', PStr ''Hook''), (''actionInvocationPoint'', PStr ''DELETE_PRE_PROVISION''),
        (''clientRequestToken'', PStr ''tok-1''), (''requestData'', PStr ''my-bucket'')]
       Map.empty
     = (Inl TypeError, Map.empty)"
proof -
  let ?ev = "[(''hookTypeName'', PStr ''Hook''),
              (''actionInvocationPoint'', PStr ''DELETE_PRE_PROVISION''),
              (''clientRequestToken'', PStr ''tok-1''), (''requestData'', PStr ''my-bucket'')]"
  have a: "authorized ?ev"
    by (simp add: authorized_def dict_get_def)
  have p: "dict_get ?ev ''actionInvocationPoint'' = PStr ''DELETE_PRE_PROVISION''"
    by (simp add: dict_get_def)
  have n: "non_mapping_segment ?ev"
    by (simp add: non_mapping_segment_def)
  from non_mapping_fault [OF a p n, of s3 Map.empty] a n show ?thesis
    by simp
qed

subsection \<open>Faults of the deletion\<close>

text \<open>
  Claim C5. When the event passes the three validation steps and the bulk-delete
  operation raises an exception, that same exception leaves the handler: no verdict is
  returned, and the storage state is the one the failed operation left. This holds for
  every storage client and every exception.
\<close>

theorem deletion_fault_propagates:
  assumes "authorized event"
    and "dict_get event ''actionInvocationPoint'' = PStr ''DELETE_PRE_PROVISION''"
    and "bucket_name_of event = Inr bucket_name"
    and "empty_bucket api bucket_name st = (Inl e, st')"
  shows "lambda_handler api event st = (Inl e, st')"
  using handler_extraction [OF assms(1,2), of api st] assms(3,4)
  by simp

theorem deletion_fault_propagates_witness:
  "bucket_name_of
     [(''hookTypeName'', PStr ''Hook''), (''actionInvocationPoint'', PStr ''DELETE_PRE_PROVISION''),
      (''clientRequestToken'', PStr ''tok-1''),
      (''requestData'', PDict [(''targetModel'',
         PDict [(''resourceProperties'', PDict [(''BucketName'', PStr ''gone'')])])])]
     = Inr (PStr ''gone'')
   \<and> empty_bucket s3 (PStr ''gone'') Map.empty = (Inl (ClientError ''NoSuchBucket''), Map.empty)
   \<and> lambda_handler s3
       [(''hookTypeName'', PStr ''Hook''), (''actionInvocationPoint'', PStr ''DELETE_PRE_PROVISION''),
        (''clientRequestToken'', PStr ''tok-1''),
        (''requestData'', PDict [(''targetModel'',
           PDict [(''resourceProperties'', PDict [(''BucketName'', PStr ''gone'')])])])]
       Map.empty
     = (Inl (ClientError ''NoSuchBucket''), Map.empty)"
proof -
  let ?ev = "[(''hookTypeName'', PStr ''Hook''),
              (''actionInvocationPoint'', PStr ''DELETE_PRE_PROVISION''),
              (''clientRequestToken'', PStr ''tok-1''),
              (''requestData'', PDict [(''targetModel'',
                 PDict [(''resourceProperties'', PDict [(''BucketName'', PStr ''gone'')])])])]"
  have a: "authorized ?ev"
    by (simp add: authorized_def dict_get_def)
  have p: "dict_get ?ev ''actionInvocationPoint'' = PStr ''DELETE_PRE_PROVISION''"
    by (simp add: dict_get_def)
  have b: "bucket_name_of ?ev = Inr (PStr ''gone'')"
    by (simp add: bucket_name_of_def)
  have f: "empty_bucket s3 (PStr ''gone'') Map.empty = (Inl (ClientError ''NoSuchBucket''), Map.empty)"
    by (simp add: empty_bucket_def s3_def collection_delete_def)
  from deletion_fault_propagates [OF a p b f] b f show ?thesis
    by simp
qed

subsection \<open>The echoed token\<close>

text \<open>
  Claim C6. Whenever the handler returns a verdict that has a \<open>clientRequestToken\<close>
  field, the value of that field is the \<open>clientRequestToken\<close> of the event.
\<close>

theorem token_echo:
  assumes "lambda_handler api event st = (Inr verdict, st')"
    and "map_of verdict ''clientRequestToken'' = Some token"
  shows "map_of event ''clientRequestToken'' = Some token"
proof (cases "authorized event")
  case False
  with assms show ?thesis
    by (auto simp: handler_unauthorized)
next
  case True
  then have t: "map_of event ''clientRequestToken'' = Some (dict_get event ''clientRequestToken'')"
    using truthy_present unfolding authorized_def by fastforce
  show ?thesis
  proof (cases "dict_get event ''actionInvocationPoint'' = PStr ''DELETE_PRE_PROVISION''")
    case False
    from handler_wrong_phase [OF True False, of api st] assms t show ?thesis
      by auto
  next
    case phase: True
    from handler_extraction [OF True phase, of api st] assms t show ?thesis
      by (auto split: sum.splits exn.splits prod.splits)
  qed
qed

theorem token_echo_witness:
  "lambda_handler s3
     [(''hookTypeName'', PStr ''Hook''), (''actionInvocationPoint'', PStr ''UPDATE_PRE_PROVISION''),
      (''clientRequestToken'', PStr ''tok-7'')] Map.empty
     = (Inr [(''hookStatus'', PStr ''FAILURE''), (''errorCode'', PStr ''Unauthorized''),
             (''message'', PStr (wrong_phase_msg (PStr ''UPDATE_PRE_PROVISION''))),
             (''clientRequestToken'', PStr ''tok-7'')], Map.empty)
   \<and> map_of
       [(''hookTypeName'', PStr ''Hook''), (''actionInvocationPoint'', PStr ''UPDATE_PRE_PROVISION''),
        (''clientRequestToken'', PStr ''tok-7'')] ''clientRequestToken''
     = Some (PStr ''tok-7'')"
proof -
  let ?ev = "[(''hookTypeName'', PStr ''Hook''),
              (''actionInvocationPoint'', PStr ''UPDATE_PRE_PROVISION''),
              (''clientRequestToken'', PStr ''tok-7'')]"
  let ?verdict = "[(''hookStatus'', PStr ''FAILURE''), (''errorCode'', PStr ''Unauthorized''),
                   (''message'', PStr (wrong_phase_msg (PStr ''UPDATE_PRE_PROVISION''))),
                   (''clientRequestToken'', PStr ''tok-7'')]"
  have r: "lambda_handler s3 ?ev Map.empty = (Inr ?verdict, Map.empty)"
    by (simp add: lambda_handler_def dict_get_def)
  have v: "map_of ?verdict ''clientRequestToken'' = Some (PStr ''tok-7'')"
    by simp
  from token_echo [OF r v] r show ?thesis
    by simp
qed

subsection \<open>Every event with another phase\<close>




subsection \<open>Validation failures delete nothing\<close>

text \<open>
  Claim C9. When the event fails the authorization check, the phase check or the
  extraction of the bucket name (a key of the path is absent), the handler returns a
  verdict with \<open>hookStatus = FAILURE\<close> and the storage state is unchanged. The same
  result comes out with any other storage client \<open>api'\<close> in place of \<open>api\<close>: the
  bulk-delete operation is not invoked.
\<close>

theorem validation_failure_deletes_nothing:
  assumes "\<not> authorized event
           \<or> dict_get event ''actionInvocationPoint'' \<noteq> PStr ''DELETE_PRE_PROVISION''
           \<or> absent_key event \<noteq> None"
  shows "\<exists>verdict.
           lambda_handler api event st = (Inr verdict, st)
           \<and> map_of verdict ''hookStatus'' = Some (PStr ''FAILURE'')
           \<and> lambda_handler api' event st = (Inr verdict, st)"
proof (cases "authorized event")
  case False
  then show ?thesis
    by (simp add: handler_unauthorized)
next
  case True
  show ?thesis
  proof (cases "dict_get event ''actionInvocationPoint'' = PStr ''DELETE_PRE_PROVISION''")
    case False
    with True show ?thesis
      by (simp add: handler_wrong_phase)
  next
    case phase: True
    with True assms obtain k where "absent_key event = Some k"
      by auto
    then have "bucket_name_of event = Inl (KeyError k)"
      by (simp add: absent_key_KeyError)
    then show ?thesis
      by (simp add: handler_extraction [OF True phase])
  qed
qed

theorem validation_failure_deletes_nothing_witness:
  "absent_key [(''hookTypeName'', PStr ''Hook''),
               (''actionInvocationPoint'', PStr ''DELETE_PRE_PROVISION''),
               (''clientRequestToken'', PStr ''tok-1''), (''requestData'', PDict [])] \<noteq> None
   \<and> (\<exists>verdict.
         lambda_handler s3
           [(''hookTypeName'', PStr ''Hook''), (''actionInvocationPoint'', PStr ''DELETE_PRE_PROVISION''),
            (''clientRequestToken'', PStr ''tok-1''), (''requestData'', PDict [])]
           (Map.empty(''my-bucket'' \<mapsto>
              \<lparr>versioning = Unversioned,
               versions = [\<lparr>key = ''a.txt'', vid = Null, delete_marker = False\<rparr>],
               next_vid = 0\<rparr>))
         = (Inr verdict,
            Map.empty(''my-bucket'' \<mapsto>
              \<lparr>versioning = Unversioned,
               versions = [\<lparr>key = ''a.txt'', vid = Null, delete_marker = False\<rparr>],
               next_vid = 0\<rparr>))
         \<and> map_of verdict ''hookStatus'' = Some (PStr ''FAILURE''))"
proof -
  let ?ev = "[(''hookTypeName'', PStr ''Hook''),
              (''actionInvocationPoint'', PStr ''DELETE_PRE_PROVISION''),
              (''clientRequestToken'', PStr ''tok-1''), (''requestData'', PDict [])]"
  let ?st = "Map.empty(''my-bucket'' \<mapsto>
               \<lparr>versioning = Unversioned,
                versions = [\<lparr>key = ''a.txt'', vid = Null, delete_marker = False\<rparr>],
                next_vid = 0\<rparr>)"
  have m: "absent_key ?ev \<noteq> None"
    by (simp add: absent_key_def)
  then have "\<not> authorized ?ev
             \<or> dict_get ?ev ''actionInvocationPoint'' \<noteq> PStr ''DELETE_PRE_PROVISION''
             \<or> absent_key ?ev \<noteq> None"
    by simp
  from validation_failure_deletes_nothing [OF this, of s3 ?st s3] m show ?thesis
    by blast
qed

section \<open>Properties of the bulk delete\<close>

subsection \<open>Auxiliary facts\<close>

lemma concat_pages_acc: "concat (pages_acc acc xs) = rev acc @ xs"
  by (induction xs arbitrary: acc) auto

lemma concat_pages: "concat (pages xs) = xs"
  by (simp add: pages_def concat_pages_acc)

lemma pages_Nil: "pages [] = []"
  by (simp add: pages_def)

lemma fold_delete_objects: "fold delete_objects ps b = fold delete_object (concat ps) b"
  by (induction ps arbitrary: b) (simp_all add: delete_objects_def)

lemma delete_pages_existing:
  "st name = Some b \<Longrightarrow>
   delete_pages name ps st = (Inr ps, st(name \<mapsto> fold delete_objects ps b))"
  by (induction ps arbitrary: st b) (simp_all add: delete_objects_request_def fun_upd_idem)

lemma collection_delete_existing:
  "st name = Some b \<Longrightarrow>
   collection_delete listing (PStr name) st
     = (Inr (pages (listing b)), st(name \<mapsto> fold delete_object (listing b) b))"
  by (simp add: collection_delete_def delete_pages_existing fold_delete_objects concat_pages)

lemma versions_delete_by_id:
  "versions (fold delete_object (map (\<lambda>(k, v). (k, Some v)) ps) b)
     = filter (\<lambda>e. (key e, vid e) \<notin> set ps) (versions b)"
  by (induction ps arbitrary: b) (auto intro: filter_cong)

lemma delete_all_versions:
  "versions (fold delete_object (map (\<lambda>(k, v). (k, Some v)) (list_object_versions b)) b) = []"
proof -
  have "filter (\<lambda>e. (key e, vid e) \<notin> set (list_object_versions b)) (versions b) = []"
    by (auto simp: list_object_versions_def filter_empty_conv)
  then show ?thesis
    by (simp only: versions_delete_by_id)
qed

lemma empty_bucket_existing:
  assumes "st name = Some b"
  shows "\<exists>b'. empty_bucket s3 (PStr name) st
                 = (Inr (pages (map (\<lambda>k. (k, None)) (list_objects b))), st(name \<mapsto> b'))
              \<and> versions b' = []"
proof -
  let ?b1 = "fold delete_object (map (\<lambda>k. (k, None)) (list_objects b)) b"
  let ?b2 = "fold delete_object (map (\<lambda>(k, v). (k, Some v)) (list_object_versions ?b1)) ?b1"
  have "empty_bucket s3 (PStr name) st
          = (Inr (pages (map (\<lambda>k. (k, None)) (list_objects b))), st(name \<mapsto> ?b2))"
    using assms by (simp add: empty_bucket_def s3_def collection_delete_existing)
  moreover have "versions ?b2 = []"
    by (rule delete_all_versions)
  ultimately show ?thesis
    by blast
qed

lemma empty_bucket_emptied:
  assumes "st name = Some b" and "versions b = []"
  shows "empty_bucket s3 (PStr name) st = (Inr [], st)"
proof -
  have "list_objects b = []" "list_object_versions b = []"
    using assms(2) by (simp_all add: list_objects_def list_object_versions_def)
  moreover have "st(name \<mapsto> b) = st"
    using assms(1) by (simp add: fun_upd_idem)
  ultimately show ?thesis
    using assms(1) by (simp add: empty_bucket_def s3_def collection_delete_existing pages_Nil)
qed

lemma emptied_listings:
  "versions b = [] \<Longrightarrow>
   current_objects (st(name \<mapsto> b)) name = [] \<and> object_versions (st(name \<mapsto> b)) name = []"
  by (simp add: current_objects_def object_versions_def list_objects_def list_object_versions_def)

subsection \<open>A well-formed event empties the bucket\<close>

text \<open>
  Claim C1. For an event with the three provenance fields non-empty, the
  \<open>actionInvocationPoint\<close> equal to \<open>DELETE_PRE_PROVISION\<close> and the path to
  \<open>BucketName\<close> present, naming a bucket of the store (whatever its current objects,
  historical versions, delete markers and versioning state), the handler returns the
  verdict with \<open>hookStatus = SUCCESS\<close>, \<open>message = compliant\<close> and the event's
  \<open>clientRequestToken\<close>, and afterwards the bucket is still there, with no current
  object and no version; the other buckets are as before.
\<close>

theorem handler_empties_bucket:
  assumes "authorized event"
    and "dict_get event ''actionInvocationPoint'' = PStr ''DELETE_PRE_PROVISION''"
    and "bucket_name_of event = Inr (PStr name)"
    and "st name = Some b"
  shows "\<exists>token st'.
           map_of event ''clientRequestToken'' = Some token
           \<and> lambda_handler s3 event st =
               (Inr [(''hookStatus'', PStr ''SUCCESS''), (''message'', PStr ''compliant''),
                     (''clientRequestToken'', token)], st')
           \<and> st' name \<noteq> None
           \<and> current_objects st' name = []
           \<and> object_versions st' name = []
           \<and> (\<forall>other. other \<noteq> name \<longrightarrow> st' other = st other)"
proof -
  from assms(1) obtain token where t: "map_of event ''clientRequestToken'' = Some token"
      "dict_get event ''clientRequestToken'' = token"
    using truthy_present unfolding authorized_def by blast
  from empty_bucket_existing [of st name b, OF assms(4)] obtain b' where
    e: "empty_bucket s3 (PStr name) st
          = (Inr (pages (map (\<lambda>k. (k, None)) (list_objects b))), st(name \<mapsto> b'))"
    and v: "versions b' = []"
    by blast
  have "lambda_handler s3 event st =
          (Inr [(''hookStatus'', PStr ''SUCCESS''), (''message'', PStr ''compliant''),
                (''clientRequestToken'', token)], st(name \<mapsto> b'))"
    using handler_extraction [OF assms(1,2), of s3 st] assms(3) e t by simp
  with t emptied_listings [OF v, of st name] show ?thesis
    by auto
qed

theorem handler_empties_bucket_witness:
  "authorized
     [(''hookTypeName'', PStr ''Hook''), (''actionInvocationPoint'', PStr ''DELETE_PRE_PROVISION''),
      (''clientRequestToken'', PStr ''tok-1''),
      (''requestData'', PDict [(''targetModel'',
         PDict [(''resourceProperties'', PDict [(''BucketName'', PStr ''my-bucket'')])])])]
   \<and> bucket_name_of
       [(''hookTypeName'', PStr ''Hook''), (''actionInvocationPoint'', PStr ''DELETE_PRE_PROVISION''),
        (''clientRequestToken'', PStr ''tok-1''),
        (''requestData'', PDict [(''targetModel'',
           PDict [(''resourceProperties'', PDict [(''BucketName'', PStr ''my-bucket'')])])])]
     = Inr (PStr ''my-bucket'')
   \<and> (\<exists>st'.
         lambda_handler s3
           [(''hookTypeName'', PStr ''Hook''), (''actionInvocationPoint'', PStr ''DELETE_PRE_PROVISION''),
            (''clientRequestToken'', PStr ''tok-1''),
            (''requestData'', PDict [(''targetModel'',
               PDict [(''resourceProperties'', PDict [(''BucketName'', PStr ''my-bucket'')])])])]
           (Map.empty(''my-bucket'' \<mapsto>
              \<lparr>versioning = Unversioned,
               versions = [\<lparr>key = ''a.txt'', vid = Null, delete_marker = False\<rparr>,
                           \<lparr>key = ''b.txt'', vid = Null, delete_marker = False\<rparr>,
                           \<lparr>key = ''c.txt'', vid = Null, delete_marker = False\<rparr>],
               next_vid = 0\<rparr>))
         = (Inr [(''hookStatus'', PStr ''SUCCESS''), (''message'', PStr ''compliant''),
                 (''clientRequestToken'', PStr ''tok-1'')], st')
         \<and> current_objects st' ''my-bucket'' = []
         \<and> object_versions st' ''my-bucket'' = [])"
proof -
  let ?ev = "[(''hookTypeName'', PStr ''Hook''),
              (''actionInvocationPoint'', PStr ''DELETE_PRE_PROVISION''),
              (''clientRequestToken'', PStr ''tok-1''),
              (''requestData'', PDict [(''targetModel'',
                 PDict [(''resourceProperties'', PDict [(''BucketName'', PStr ''my-bucket'')])])])]"
  let ?b = "\<lparr>versioning = Unversioned,
             versions = [\<lparr>key = ''a.txt'', vid = Null, delete_marker = False\<rparr>,
                         \<lparr>key = ''b.txt'', vid = Null, delete_marker = False\<rparr>,
                         \<lparr>key = ''c.txt'', vid = Null, delete_marker = False\<rparr>],
             next_vid = 0\<rparr>"
  have a: "authorized ?ev"
    by (simp add: authorized_def dict_get_def)
  have p: "dict_get ?ev ''actionInvocationPoint'' = PStr ''DELETE_PRE_PROVISION''"
    by (simp add: dict_get_def)
  have n: "bucket_name_of ?ev = Inr (PStr ''my-bucket'')"
    by (simp add: bucket_name_of_def)
  let ?st = "Map.empty(''my-bucket'' \<mapsto> ?b)"
  have s: "?st ''my-bucket'' = Some ?b"
    by simp
  have t: "map_of ?ev ''clientRequestToken'' = Some (PStr ''tok-1'')"
    by simp
  from handler_empties_bucket [of ?ev "''my-bucket''" ?st ?b, OF a p n s] a n t show ?thesis
    by auto
qed

subsection \<open>Emptying twice\<close>

text \<open>
  Claim C7. For every state of an existing bucket, \<open>empty_bucket\<close> returns without an
  exception, and a second \<open>empty_bucket\<close> right after it returns without an exception
  too, sends no delete request (its response is the empty list) and leaves the store as
  the first one left it: the bucket there, with no current object and no version. On
  that emptied bucket every object is absent, and a delete request for any batch of
  objects is answered without an error.
\<close>

theorem empty_bucket_idempotent:
  assumes "st name = Some b"
  shows "\<exists>response st1.
           empty_bucket s3 (PStr name) st = (Inr response, st1)
           \<and> empty_bucket s3 (PStr name) st1 = (Inr [], st1)
           \<and> st1 name \<noteq> None
           \<and> current_objects st1 name = []
           \<and> object_versions st1 name = []
           \<and> (\<forall>objs. \<exists>st2. delete_objects_request name objs st1 = (Inr objs, st2))"
proof -
  from empty_bucket_existing [of st name b, OF assms] obtain b' where
    e: "empty_bucket s3 (PStr name) st
          = (Inr (pages (map (\<lambda>k. (k, None)) (list_objects b))), st(name \<mapsto> b'))"
    and v: "versions b' = []"
    by blast
  let ?st1 = "st(name \<mapsto> b')"
  have s: "?st1 name = Some b'"
    by simp
  have "empty_bucket s3 (PStr name) ?st1 = (Inr [], ?st1)"
    using s v by (rule empty_bucket_emptied)
  moreover have "\<forall>objs. \<exists>st2. delete_objects_request name objs ?st1 = (Inr objs, st2)"
    by (simp add: delete_objects_request_def)
  ultimately show ?thesis
    using e s emptied_listings [OF v, of st name] by auto
qed

theorem empty_bucket_idempotent_witness:
  "(\<exists>response st1.
      empty_bucket s3 (PStr ''my-bucket'')
        (Map.empty(''my-bucket'' \<mapsto>
           \<lparr>versioning = Enabled,
            versions = [\<lparr>key = ''a.txt'', vid = Vid 1, delete_marker = True\<rparr>,
                        \<lparr>key = ''b.txt'', vid = Vid 0, delete_marker = False\<rparr>,
                        \<lparr>key = ''a.txt'', vid = Null, delete_marker = False\<rparr>],
            next_vid = 2\<rparr>))
        = (Inr response, st1)
      \<and> empty_bucket s3 (PStr ''my-bucket'') st1 = (Inr [], st1)
      \<and> current_objects st1 ''my-bucket'' = []
      \<and> object_versions st1 ''my-bucket'' = []
      \<and> (\<exists>st2. delete_objects_request ''my-bucket'' [(''a.txt'', Some (Vid 1))] st1
                  = (Inr [(''a.txt'', Some (Vid 1))], st2)))"
proof -
  let ?b = "\<lparr>versioning = Enabled,
             versions = [\<lparr>key = ''a.txt'', vid = Vid 1, delete_marker = True\<rparr>,
                         \<lparr>key = ''b.txt'', vid = Vid 0, delete_marker = False\<rparr>,
                         \<lparr>key = ''a.txt'', vid = Null, delete_marker = False\<rparr>],
             next_vid = 2\<rparr>"
  let ?st = "Map.empty(''my-bucket'' \<mapsto> ?b)"
  have s: "?st ''my-bucket'' = Some ?b"
    by simp
  from empty_bucket_idempotent [of ?st "''my-bucket''" ?b, OF s] show ?thesis
    by blast
qed

end
